theory Spec2Isabelle
  imports Complex_Main
begin

section \<open>JavaScript numbers\<close>

text \<open>
  The physics of the simulator lives in \<^verbatim>\<open>src/components/Controls.tsx\<close> and computes on
  JavaScript \<^verbatim>\<open>number\<close>s. A number is modelled as an exact real or one of the three
  special values of IEEE 754 arithmetic, so that a division by zero is visible as what
  JavaScript makes of it (\<^verbatim>\<open>Infinity\<close>, \<^verbatim>\<open>-Infinity\<close> or \<^verbatim>\<open>NaN\<close>) and not as the
  \<open>x / 0 = 0\<close> of the reals of HOL. Three things are left out: rounding (finite results
  are exact), overflow (a sum, product or quotient of finite numbers is finite here, where
  a double beyond about \<open>1.8 * 10^308\<close> becomes an infinity) and the sign of zero (a zero
  divisor counts as \<^verbatim>\<open>+0\<close>; the only divisor of the program that can be zero is a sum
  \<^verbatim>\<open>1.0 + x\<close>, which is \<^verbatim>\<open>+0\<close> when it is zero). A statement about finite results is
  therefore made only for inputs whose magnitude keeps every double of the computation in
  range.
\<close>

datatype jsnum = Num real | PosInf | NegInf | NaN


fun js_negative :: "jsnum \<Rightarrow> bool" where
  "js_negative (Num x) = (x < 0)"
| "js_negative PosInf = False"
| "js_negative NegInf = True"
| "js_negative NaN = False"

fun js_inf :: "bool \<Rightarrow> jsnum" where
  "js_inf True = NegInf"
| "js_inf False = PosInf"

fun js_uminus :: "jsnum \<Rightarrow> jsnum" where
  "js_uminus (Num x) = Num (- x)"
| "js_uminus PosInf = NegInf"
| "js_uminus NegInf = PosInf"
| "js_uminus NaN = NaN"

text \<open>\<^verbatim>\<open>a + b\<close>: \<^verbatim>\<open>Infinity + -Infinity\<close> is \<^verbatim>\<open>NaN\<close>.\<close>

fun js_add :: "jsnum \<Rightarrow> jsnum \<Rightarrow> jsnum" where
  "js_add (Num x) (Num y) = Num (x + y)"
| "js_add NaN b = NaN"
| "js_add a NaN = NaN"
| "js_add PosInf NegInf = NaN"
| "js_add NegInf PosInf = NaN"
| "js_add PosInf b = PosInf"
| "js_add NegInf b = NegInf"
| "js_add (Num x) b = b"

definition js_sub :: "jsnum \<Rightarrow> jsnum \<Rightarrow> jsnum" where
  "js_sub a b = js_add a (js_uminus b)"

text \<open>\<^verbatim>\<open>a * b\<close>: \<^verbatim>\<open>Infinity * 0\<close> is \<^verbatim>\<open>NaN\<close>, otherwise the signs multiply.\<close>

fun js_mul :: "jsnum \<Rightarrow> jsnum \<Rightarrow> jsnum" where
  "js_mul (Num x) (Num y) = Num (x * y)"
| "js_mul NaN b = NaN"
| "js_mul a NaN = NaN"
| "js_mul a b =
     (if a = Num 0 \<or> b = Num 0 then NaN
      else js_inf (js_negative a \<noteq> js_negative b))"

text \<open>
  \<^verbatim>\<open>a / b\<close> never throws: a finite nonzero number over zero is an infinity of its sign,
  \<^verbatim>\<open>0 / 0\<close> and \<^verbatim>\<open>Infinity / Infinity\<close> are \<^verbatim>\<open>NaN\<close>, a finite number over an infinity
  is zero.
\<close>

fun js_div :: "jsnum \<Rightarrow> jsnum \<Rightarrow> jsnum" where
  "js_div (Num x) (Num y) =
     (if y = 0 then (if x = 0 then NaN else js_inf (x < 0)) else Num (x / y))"
| "js_div NaN b = NaN"
| "js_div a NaN = NaN"
| "js_div (Num x) b = Num 0"
| "js_div a (Num y) = js_inf (js_negative a \<noteq> (y < 0))"
| "js_div a b = NaN"

text \<open>\<^verbatim>\<open>a < b\<close> and \<^verbatim>\<open>a > b\<close>: every comparison with \<^verbatim>\<open>NaN\<close> is false.\<close>

fun js_lt :: "jsnum \<Rightarrow> jsnum \<Rightarrow> bool" where
  "js_lt (Num x) (Num y) = (x < y)"
| "js_lt NaN b = False"
| "js_lt a NaN = False"
| "js_lt a NegInf = False"
| "js_lt NegInf b = True"
| "js_lt PosInf b = False"
| "js_lt a PosInf = True"

definition js_gt :: "jsnum \<Rightarrow> jsnum \<Rightarrow> bool" where
  "js_gt a b = js_lt b a"

text \<open>\<^verbatim>\<open>a <= b\<close>, used to state bounds (the program itself compares strictly).\<close>

fun js_le :: "jsnum \<Rightarrow> jsnum \<Rightarrow> bool" where
  "js_le (Num x) (Num y) = (x \<le> y)"
| "js_le NaN b = False"
| "js_le a NaN = False"
| "js_le NegInf b = True"
| "js_le a PosInf = True"
| "js_le a b = False"

text \<open>\<^verbatim>\<open>Math.min\<close> and \<^verbatim>\<open>Math.max\<close> of two arguments: \<^verbatim>\<open>NaN\<close> if either is \<^verbatim>\<open>NaN\<close>.\<close>

definition Math_min :: "jsnum \<Rightarrow> jsnum \<Rightarrow> jsnum" where
  "Math_min a b = (if a = NaN \<or> b = NaN then NaN else if js_lt b a then b else a)"

definition Math_max :: "jsnum \<Rightarrow> jsnum \<Rightarrow> jsnum" where
  "Math_max a b = (if a = NaN \<or> b = NaN then NaN else if js_lt a b then b else a)"

section \<open>The light table\<close>

text \<open>
  \<^verbatim>\<open>LIGHT_COLORS\<close> of Controls.tsx. The three fields are \<^verbatim>\<open>name\<close>, \<^verbatim>\<open>value\<close> and
  \<^verbatim>\<open>spectrum\<close> in the source.
\<close>

record LightColor =
  lc_name :: string
  lc_value :: string
  lc_spectrum :: jsnum

definition LIGHT_COLORS :: "LightColor list" where
  "LIGHT_COLORS =
     [\<lparr>lc_name = ''White'', lc_value = ''#ffffff'', lc_spectrum = Num 0.9\<rparr>,
      \<lparr>lc_name = ''Red'', lc_value = ''#ff0000'', lc_spectrum = Num 1.0\<rparr>,
      \<lparr>lc_name = ''Blue'', lc_value = ''#0000ff'', lc_spectrum = Num 1.0\<rparr>,
      \<lparr>lc_name = ''Green'', lc_value = ''#00ff00'', lc_spectrum = Num 0.4\<rparr>,
      \<lparr>lc_name = ''Far-Red'', lc_value = ''#8b0000'', lc_spectrum = Num 0.2\<rparr>]"

text \<open>
  \<^verbatim>\<open>LIGHT_COLORS.find(c => c.value === lightCol) || LIGHT_COLORS[0]\<close>: the first entry
  whose \<^verbatim>\<open>value\<close> is the argument, and the first entry of the table when there is none.
\<close>

definition lightInfo :: "string \<Rightarrow> LightColor" where
  "lightInfo lightCol =
     (case find (\<lambda>c. lc_value c = lightCol) LIGHT_COLORS of
        Some c \<Rightarrow> c
      | None \<Rightarrow> LIGHT_COLORS ! 0)"

section \<open>calculatePhysics\<close>

text \<open>
  The steps of \<^verbatim>\<open>calculatePhysics\<close> (Controls.tsx, lines 21 to 88), one definition for
  each local of the source, in the order of the source.
\<close>

text \<open>\<^verbatim>\<open>const convectionFactor = 0.2 + (gravity * 0.8)\<close>; computed and never read.\<close>

definition convectionFactor :: "jsnum \<Rightarrow> jsnum" where
  "convectionFactor gravity = js_add (Num 0.2) (js_mul gravity (Num 0.8))"

text \<open>The divisor \<^verbatim>\<open>(1.0 + velocity * 0.5)\<close> of the thickness step.\<close>

definition velocityDivisor :: "jsnum \<Rightarrow> jsnum" where
  "velocityDivisor velocity = js_add (Num 1.0) (js_mul velocity (Num 0.5))"

text \<open>\<^verbatim>\<open>thickness = thickness / (1.0 + velocity * 0.5)\<close>, with \<^verbatim>\<open>thickness = userThickness\<close>.\<close>

definition thickness :: "jsnum \<Rightarrow> jsnum \<Rightarrow> jsnum" where
  "thickness userThickness velocity = js_div userThickness (velocityDivisor velocity)"

text \<open>\<^verbatim>\<open>Math.min(Math.max(thickness, 0.2), 4.0)\<close>\<close>

definition clampedThickness :: "jsnum \<Rightarrow> jsnum \<Rightarrow> jsnum" where
  "clampedThickness userThickness velocity =
     Math_min (Math_max (thickness userThickness velocity) (Num 0.2)) (Num 4.0)"

definition resistance :: "jsnum \<Rightarrow> jsnum" where
  "resistance ct = js_mul ct (Num 2.0)"

text \<open>The divisor \<^verbatim>\<open>Math.max(resistance, 0.5)\<close> of the flux step.\<close>

definition fluxDivisor :: "jsnum \<Rightarrow> jsnum" where
  "fluxDivisor r = Math_max r (Num 0.5)"

definition calcCo2Flux :: "jsnum \<Rightarrow> jsnum \<Rightarrow> jsnum" where
  "calcCo2Flux co2Lvl r = js_div (js_mul co2Lvl (Num 0.2)) (fluxDivisor r)"

definition calcO2Flux :: "jsnum \<Rightarrow> jsnum" where
  "calcO2Flux co2flux = js_mul co2flux (Num 0.9)"

definition heatTrapping :: "jsnum \<Rightarrow> jsnum" where
  "heatTrapping ct = js_mul ct (Num 3.0)"

definition radiantHeat :: "jsnum \<Rightarrow> jsnum" where
  "radiantHeat lightInt = js_mul lightInt (Num 2.5)"

definition leafTemp :: "jsnum \<Rightarrow> jsnum \<Rightarrow> jsnum \<Rightarrow> jsnum" where
  "leafTemp ambientTemp ht rh = js_add (js_add ambientTemp ht) rh"

definition spectrumEfficiency :: "string \<Rightarrow> jsnum" where
  "spectrumEfficiency lightCol = lc_spectrum (lightInfo lightCol)"

definition intensityFactor :: "jsnum \<Rightarrow> jsnum" where
  "intensityFactor lightInt = Math_min (js_div lightInt (Num 2.0)) (Num 1.2)"

text \<open>
  \<^verbatim>\<open>let tempPenalty = 1.0;\<close>
  \<^verbatim>\<open>if (leafTemp > 30) tempPenalty = Math.max(0, 1.0 - (leafTemp - 30) * 0.1);\<close>
  \<^verbatim>\<open>if (leafTemp < 15) tempPenalty = Math.max(0, 1.0 - (15 - leafTemp) * 0.1);\<close>
\<close>

definition tempPenalty :: "jsnum \<Rightarrow> jsnum" where
  "tempPenalty lt =
     (let tp = Num 1.0;
          tp = (if js_gt lt (Num 30)
                then Math_max (Num 0) (js_sub (Num 1.0) (js_mul (js_sub lt (Num 30)) (Num 0.1)))
                else tp);
          tp = (if js_lt lt (Num 15)
                then Math_max (Num 0) (js_sub (Num 1.0) (js_mul (js_sub (Num 15) lt) (Num 0.1)))
                else tp)
      in tp)"

definition co2Penalty :: "jsnum \<Rightarrow> jsnum" where
  "co2Penalty co2flux = Math_min (js_div co2flux (Num 40.0)) (Num 1.0)"

text \<open>
  \<^verbatim>\<open>let efficiency = 100 * spectrumEfficiency * intensityFactor * tempPenalty * co2Penalty;\<close>
  \<^verbatim>\<open>efficiency = Math.min(Math.max(efficiency, 0), 100);\<close>
\<close>

definition efficiency :: "jsnum \<Rightarrow> jsnum \<Rightarrow> jsnum \<Rightarrow> jsnum \<Rightarrow> jsnum" where
  "efficiency se ifac tp cp =
     (let e = js_mul (js_mul (js_mul (js_mul (Num 100) se) ifac) tp) cp
      in Math_min (Math_max e (Num 0)) (Num 100))"

text \<open>
  \<^verbatim>\<open>let stress = 10;\<close>
  \<^verbatim>\<open>if (clampedThickness > 1.5) stress += 30;\<close>
  \<^verbatim>\<open>if (calcCo2Flux < 15) stress += 30;\<close>
  \<^verbatim>\<open>if (leafTemp > 30) stress += (leafTemp - 30) * 5;\<close>
  \<^verbatim>\<open>if (efficiency < 30) stress += 20;\<close>
  \<^verbatim>\<open>stress = Math.min(stress, 100);\<close>
\<close>

definition stress :: "jsnum \<Rightarrow> jsnum \<Rightarrow> jsnum \<Rightarrow> jsnum \<Rightarrow> jsnum" where
  "stress ct co2flux lt eff =
     (let s = Num 10;
          s = (if js_gt ct (Num 1.5) then js_add s (Num 30) else s);
          s = (if js_lt co2flux (Num 15) then js_add s (Num 30) else s);
          s = (if js_gt lt (Num 30) then js_add s (js_mul (js_sub lt (Num 30)) (Num 5)) else s);
          s = (if js_lt eff (Num 30) then js_add s (Num 20) else s)
      in Math_min s (Num 100))"

text \<open>The object \<^verbatim>\<open>calculatePhysics\<close> returns.\<close>

record Physics =
  r_boundaryLayerThickness :: jsnum
  r_co2Flux :: jsnum
  r_o2Flux :: jsnum
  r_stressLevel :: jsnum
  r_temperature :: jsnum
  r_photosyntheticEfficiency :: jsnum

definition calculatePhysics ::
  "jsnum \<Rightarrow> jsnum \<Rightarrow> jsnum \<Rightarrow> jsnum \<Rightarrow> jsnum \<Rightarrow> jsnum \<Rightarrow> jsnum \<Rightarrow> string \<Rightarrow> Physics" where
  "calculatePhysics gravity velocity userThickness co2Lvl o2Lvl ambientTemp lightInt lightCol =
     (let cf = convectionFactor gravity;
          ct = clampedThickness userThickness velocity;
          r = resistance ct;
          co2flux = calcCo2Flux co2Lvl r;
          o2flux = calcO2Flux co2flux;
          ht = heatTrapping ct;
          rh = radiantHeat lightInt;
          lt = leafTemp ambientTemp ht rh;
          se = spectrumEfficiency lightCol;
          ifac = intensityFactor lightInt;
          tp = tempPenalty lt;
          cp = co2Penalty co2flux;
          eff = efficiency se ifac tp cp;
          s = stress ct co2flux lt eff
      in \<lparr>r_boundaryLayerThickness = ct,
          r_co2Flux = co2flux,
          r_o2Flux = o2flux,
          r_stressLevel = s,
          r_temperature = lt,
          r_photosyntheticEfficiency = eff\<rparr>)"

section \<open>The simulation state\<close>

datatype GravityMode = EARTH_1G | MICRO_UG

text \<open>The interface \<^verbatim>\<open>SimulationState\<close> of types.ts, field by field.\<close>

record SimulationState =
  gravityMode :: GravityMode
  gravityFactor :: jsnum
  airVelocity :: jsnum
  boundaryLayerThickness :: jsnum
  co2Flux :: jsnum
  o2Flux :: jsnum
  temperature :: jsnum
  ambientTemperature :: jsnum
  stressLevel :: jsnum
  ambientCO2 :: jsnum
  ambientO2 :: jsnum

text \<open>
  Modelled from the spec: the fields \<^verbatim>\<open>lightIntensity\<close>, \<^verbatim>\<open>lightColor\<close> and
  \<^verbatim>\<open>photosyntheticEfficiency\<close> are read and written by Controls.tsx, but the interface
  in types.ts does not declare them. The state Controls.tsx works on is the declared
  record extended by the three fields of the data model of the specification.
\<close>

record ControlsState = SimulationState +
  lightIntensity :: jsnum
  lightColor :: string
  photosyntheticEfficiency :: jsnum

text \<open>\<^verbatim>\<open>INITIAL_STATE\<close> (the constants that follow the interface in types.ts).\<close>

definition INITIAL_STATE :: SimulationState where
  "INITIAL_STATE =
     \<lparr>gravityMode = EARTH_1G,
      gravityFactor = Num 1.0,
      airVelocity = Num 1.0,
      boundaryLayerThickness = Num 0.4,
      co2Flux = Num 50,
      o2Flux = Num 45,
      temperature = Num 22,
      ambientTemperature = Num 22,
      stressLevel = Num 0,
      ambientCO2 = Num 400,
      ambientO2 = Num 21\<rparr>"

text \<open>
  The argument \<^verbatim>\<open>overrides\<close> of \<^verbatim>\<open>updateState\<close>: an object holding some of the fields
  of the state. \<open>None\<close> is a key the object does not have.
\<close>

record Overrides =
  o_gravityMode :: "GravityMode option"
  o_gravityFactor :: "jsnum option"
  o_airVelocity :: "jsnum option"
  o_boundaryLayerThickness :: "jsnum option"
  o_co2Flux :: "jsnum option"
  o_o2Flux :: "jsnum option"
  o_temperature :: "jsnum option"
  o_ambientTemperature :: "jsnum option"
  o_stressLevel :: "jsnum option"
  o_ambientCO2 :: "jsnum option"
  o_ambientO2 :: "jsnum option"
  o_lightIntensity :: "jsnum option"
  o_lightColor :: "string option"
  o_photosyntheticEfficiency :: "jsnum option"

text \<open>The object \<^verbatim>\<open>{}\<close>.\<close>

definition no_overrides :: Overrides where
  "no_overrides =
     \<lparr>o_gravityMode = None, o_gravityFactor = None, o_airVelocity = None,
      o_boundaryLayerThickness = None, o_co2Flux = None, o_o2Flux = None,
      o_temperature = None, o_ambientTemperature = None, o_stressLevel = None,
      o_ambientCO2 = None, o_ambientO2 = None, o_lightIntensity = None,
      o_lightColor = None, o_photosyntheticEfficiency = None\<rparr>"

text \<open>\<^verbatim>\<open>override.f !== undefined ? override.f : state.f\<close>\<close>

definition pick :: "'a option \<Rightarrow> 'a \<Rightarrow> 'a" where
  "pick ov old = (case ov of Some v \<Rightarrow> v | None \<Rightarrow> old)"

text \<open>\<^verbatim>\<open>const merged = { ...state, ...overrides }\<close>\<close>

definition merged :: "ControlsState \<Rightarrow> Overrides \<Rightarrow> ControlsState" where
  "merged state overrides =
     \<lparr>gravityMode = pick (o_gravityMode overrides) (gravityMode state),
      gravityFactor = pick (o_gravityFactor overrides) (gravityFactor state),
      airVelocity = pick (o_airVelocity overrides) (airVelocity state),
      boundaryLayerThickness =
        pick (o_boundaryLayerThickness overrides) (boundaryLayerThickness state),
      co2Flux = pick (o_co2Flux overrides) (co2Flux state),
      o2Flux = pick (o_o2Flux overrides) (o2Flux state),
      temperature = pick (o_temperature overrides) (temperature state),
      ambientTemperature = pick (o_ambientTemperature overrides) (ambientTemperature state),
      stressLevel = pick (o_stressLevel overrides) (stressLevel state),
      ambientCO2 = pick (o_ambientCO2 overrides) (ambientCO2 state),
      ambientO2 = pick (o_ambientO2 overrides) (ambientO2 state),
      lightIntensity = pick (o_lightIntensity overrides) (lightIntensity state),
      lightColor = pick (o_lightColor overrides) (lightColor state),
      photosyntheticEfficiency =
        pick (o_photosyntheticEfficiency overrides) (photosyntheticEfficiency state)\<rparr>"

text \<open>
  \<^verbatim>\<open>updateState\<close> (Controls.tsx, lines 91 to 119). The value is the object handed to
  \<^verbatim>\<open>onUpdate\<close>, \<^verbatim>\<open>{ ...merged, ...physics }\<close>. The third argument of \<^verbatim>\<open>calculatePhysics\<close>
  is the overriding thickness when there is one and the thickness of the state otherwise.
\<close>

definition updateState :: "ControlsState \<Rightarrow> Overrides \<Rightarrow> ControlsState" where
  "updateState state overrides =
     (let m = merged state overrides;
          physics = calculatePhysics
            (gravityFactor m)
            (airVelocity m)
            (pick (o_boundaryLayerThickness overrides) (boundaryLayerThickness state))
            (ambientCO2 m)
            (ambientO2 m)
            (ambientTemperature m)
            (lightIntensity m)
            (lightColor m)
      in m\<lparr>boundaryLayerThickness := r_boundaryLayerThickness physics,
            co2Flux := r_co2Flux physics,
            o2Flux := r_o2Flux physics,
            stressLevel := r_stressLevel physics,
            temperature := r_temperature physics,
            photosyntheticEfficiency := r_photosyntheticEfficiency physics\<rparr>)"

text \<open>\<^verbatim>\<open>handlePreset\<close> (Controls.tsx, lines 121 to 131).\<close>

definition handlePreset :: "GravityMode \<Rightarrow> ControlsState \<Rightarrow> ControlsState" where
  "handlePreset mode state =
     (let isEarth = (mode = EARTH_1G);
          newGravity = (if isEarth then Num 1.0 else Num 0.0);
          newThickness = (if isEarth then Num 0.4 else Num 2.5)
      in updateState state
           (no_overrides\<lparr>o_gravityMode := Some mode,
              o_gravityFactor := Some newGravity,
              o_boundaryLayerThickness := Some newThickness\<rparr>))"

section \<open>The declared domain of the inputs\<close>

text \<open>
  The domain the data model declares for each input of \<^verbatim>\<open>calculatePhysics\<close>, which is
  also the range of the slider that sets it in Controls.tsx (\<^verbatim>\<open>min\<close> and \<^verbatim>\<open>max\<close> of
  each \<^verbatim>\<open>input\<close>); a light colour is one of the five \<^verbatim>\<open>value\<close>s of the table. A bound
  stated with \<open>js_le\<close> holds of no special value, so an input in its domain is finite.
\<close>

definition declared_domain ::
  "jsnum \<Rightarrow> jsnum \<Rightarrow> jsnum \<Rightarrow> jsnum \<Rightarrow> jsnum \<Rightarrow> jsnum \<Rightarrow> jsnum \<Rightarrow> string \<Rightarrow> bool" where
  "declared_domain gravity velocity userThickness co2Lvl o2Lvl ambientTemp lightInt lightCol =
     (js_le (Num 0) gravity \<and> js_le gravity (Num 1) \<and>
      js_le (Num 0) velocity \<and> js_le velocity (Num 5) \<and>
      js_le (Num 0.2) userThickness \<and> js_le userThickness (Num 4.0) \<and>
      js_le (Num 200) co2Lvl \<and> js_le co2Lvl (Num 1500) \<and>
      js_le (Num 15) o2Lvl \<and> js_le o2Lvl (Num 30) \<and>
      js_le (Num 15) ambientTemp \<and> js_le ambientTemp (Num 35) \<and>
      js_le (Num 0) lightInt \<and> js_le lightInt (Num 5) \<and>
      lightCol \<in> set (map lc_value LIGHT_COLORS))"

section \<open>Arithmetic on finite numbers\<close>

lemmas step_defs = convectionFactor_def velocityDivisor_def thickness_def clampedThickness_def
  resistance_def fluxDivisor_def calcCo2Flux_def calcO2Flux_def heatTrapping_def radiantHeat_def
  leafTemp_def spectrumEfficiency_def intensityFactor_def tempPenalty_def co2Penalty_def
  efficiency_def stress_def lightInfo_def LIGHT_COLORS_def
  Math_min_def Math_max_def js_gt_def js_sub_def

lemma Math_min_Num: "Math_min (Num a) (Num b) = Num (min a b)"
  by (simp add: Math_min_def min_def)

lemma Math_max_Num: "Math_max (Num a) (Num b) = Num (max a b)"
  by (simp add: Math_max_def max_def)

lemma js_gt_Num: "js_gt (Num a) (Num b) = (b < a)"
  by (simp add: js_gt_def)

lemma js_sub_Num: "js_sub (Num a) (Num b) = Num (a - b)"
  by (simp add: js_sub_def)

lemmas Num_simps = Math_min_Num Math_max_Num js_gt_Num js_sub_Num

lemma between_Num:
  assumes "js_le (Num a) x" and "js_le x (Num b)"
  obtains r where "x = Num r" and "a \<le> r" and "r \<le> b"
  using assms by (cases x) auto

section \<open>The steps on finite inputs\<close>

lemma velocityDivisor_Num: "velocityDivisor (Num v) = Num (1 + v * 0.5)"
  by (simp add: velocityDivisor_def)

text \<open>Off \<open>velocity = -2\<close> the divisor is not zero and the clamp acts on a real quotient.\<close>

lemma clampedThickness_Num:
  assumes "v \<noteq> - 2"
  shows "clampedThickness (Num t) (Num v) = Num (min (max (t / (1 + v * 0.5)) 0.2) 4)"
proof -
  from assms have "1 + v * 0.5 \<noteq> 0" by simp
  then show ?thesis
    by (simp add: clampedThickness_def thickness_def velocityDivisor_Num Num_simps)
qed

lemma boundaryLayerThickness_eq:
  "r_boundaryLayerThickness (calculatePhysics gravity velocity userThickness co2Lvl o2Lvl
       ambientTemp lightInt lightCol) = clampedThickness userThickness velocity"
  by (simp add: calculatePhysics_def Let_def)

lemma clamped_antitone:
  fixes b v1 v2 :: real
  assumes "0 \<le> v1" "v1 \<le> v2" "0 \<le> b"
  shows "min (max (b / (1 + v2 * 0.5)) 0.2) 4 \<le> min (max (b / (1 + v1 * 0.5)) 0.2) 4"
proof -
  have pos: "0 < 1 + v1 * 0.5" using assms by simp
  have le: "1 + v1 * 0.5 \<le> 1 + v2 * 0.5" using assms by simp
  have "b / (1 + v2 * 0.5) \<le> b / (1 + v1 * 0.5)"
    using assms(3) pos le by (intro divide_left_mono mult_pos_pos) linarith+
  then have "max (b / (1 + v2 * 0.5)) 0.2 \<le> max (b / (1 + v1 * 0.5)) 0.2"
    by (rule max.mono) (rule order_refl)
  then show ?thesis
    by (rule min.mono) (rule order_refl)
qed

lemma lightInfo_cases:
  "lc_spectrum (lightInfo lightCol) \<in> {Num 0.9, Num 1.0, Num 0.4, Num 0.2}"
  by (simp add: lightInfo_def LIGHT_COLORS_def)

lemma spectrumEfficiency_Num:
  "\<exists>s. spectrumEfficiency lightCol = Num s \<and> 0 \<le> s \<and> s \<le> 1"
  using lightInfo_cases [of lightCol] by (auto simp: spectrumEfficiency_def)

lemma tempPenalty_Num: "\<exists>p. tempPenalty (Num x) = Num p \<and> 0 \<le> p \<and> p \<le> 1"
  by (simp add: tempPenalty_def Let_def Num_simps)

lemma efficiency_Num:
  "\<exists>e. efficiency (Num s) (Num i) (Num p) (Num c) = Num e \<and> 0 \<le> e \<and> e \<le> 100"
  by (simp add: efficiency_def Let_def Num_simps)

lemma stress_Num:
  "\<exists>s. stress (Num ct) (Num f) (Num lt) (Num e) = Num s \<and> 10 \<le> s \<and> s \<le> 100"
  by (simp add: stress_def Let_def Num_simps)

text \<open>
  The stress of any four numbers, special values included: the only summand that is not
  a constant is added when \<^verbatim>\<open>leafTemp > 30\<close> holds, and is then positive or \<^verbatim>\<open>Infinity\<close>.
\<close>

lemma stress_range:
  "js_le (Num 10) (stress ct f lt e) \<and> js_le (stress ct f lt e) (Num 100)"
  by (cases lt) (simp_all add: stress_def Let_def js_gt_def js_sub_def Math_min_def)

text \<open>
  On finite inputs with \<open>velocity \<noteq> -2\<close> every step yields a finite number; the result
  is given with its bounds.
\<close>

lemma calculatePhysics_Num:
  assumes "v \<noteq> - 2"
  shows "\<exists>ct f lt e s.
     calculatePhysics (Num g) (Num v) (Num t) (Num c) (Num o2) (Num a) (Num li) lc =
       \<lparr>r_boundaryLayerThickness = Num ct, r_co2Flux = Num f, r_o2Flux = Num (f * 0.9),
        r_stressLevel = Num s, r_temperature = Num lt, r_photosyntheticEfficiency = Num e\<rparr>
     \<and> 0.2 \<le> ct \<and> ct \<le> 4 \<and> 10 \<le> s \<and> s \<le> 100 \<and> 0 \<le> e \<and> e \<le> 100"
proof -
  define ct where "ct = min (max (t / (1 + v * 0.5)) 0.2) 4"
  have ct: "clampedThickness (Num t) (Num v) = Num ct"
    unfolding ct_def by (rule clampedThickness_Num [OF assms])
  have ct_range: "0.2 \<le> ct" "ct \<le> 4"
    by (simp_all add: ct_def)
  define f where "f = c * 0.2 / max (ct * 2) 0.5"
  have "max (ct * 2) 0.5 \<noteq> 0" by (simp add: max_def)
  then have f: "calcCo2Flux (Num c) (resistance (Num ct)) = Num f"
    by (simp add: calcCo2Flux_def resistance_def fluxDivisor_def Math_max_Num f_def)
  define lt where "lt = a + ct * 3 + li * 2.5"
  have lt: "leafTemp (Num a) (heatTrapping (Num ct)) (radiantHeat (Num li)) = Num lt"
    by (simp add: leafTemp_def heatTrapping_def radiantHeat_def lt_def)
  obtain se where se: "spectrumEfficiency lc = Num se"
    using spectrumEfficiency_Num by blast
  obtain ifac where ifac: "intensityFactor (Num li) = Num ifac"
    by (simp add: intensityFactor_def Math_min_Num)
  obtain tp where tp: "tempPenalty (Num lt) = Num tp"
    using tempPenalty_Num by blast
  obtain cp where cp: "co2Penalty (Num f) = Num cp"
    by (simp add: co2Penalty_def Math_min_Num)
  obtain e where e: "efficiency (Num se) (Num ifac) (Num tp) (Num cp) = Num e"
    and e_range: "0 \<le> e" "e \<le> 100"
    using efficiency_Num by blast
  obtain s where s: "stress (Num ct) (Num f) (Num lt) (Num e) = Num s"
    and s_range: "10 \<le> s" "s \<le> 100"
    using stress_Num by blast
  have "calculatePhysics (Num g) (Num v) (Num t) (Num c) (Num o2) (Num a) (Num li) lc =
       \<lparr>r_boundaryLayerThickness = Num ct, r_co2Flux = Num f, r_o2Flux = Num (f * 0.9),
        r_stressLevel = Num s, r_temperature = Num lt, r_photosyntheticEfficiency = Num e\<rparr>"
    by (simp add: calculatePhysics_def Let_def ct f lt se ifac tp cp e s calcO2Flux_def)
  with ct_range e_range s_range show ?thesis by blast
qed




section \<open>Scenario A (C1)\<close>

text \<open>
  C1 as stated gives the stress level of Scenario A as 10. The scenario has no light, so
  the intensity factor and with it the efficiency is 0, which is below 30: the last penalty
  of the stress block applies and the stress level is not 10, whether the colour is given
  as the \<^verbatim>\<open>value\<close> of White or as its name (which matches no \<^verbatim>\<open>value\<close> and falls back
  to White).
\<close>

theorem scenario_A_stress_is_not_10:
  "r_stressLevel (calculatePhysics (Num 1.0) (Num 0) (Num 0.4) (Num 400) (Num 21) (Num 22)
      (Num 0) ''#ffffff'') \<noteq> Num 10
   \<and> r_stressLevel (calculatePhysics (Num 1.0) (Num 0) (Num 0.4) (Num 400) (Num 21) (Num 22)
      (Num 0) ''White'') \<noteq> Num 10"
  by (simp add: calculatePhysics_def step_defs Let_def)

text \<open>
  C1, amended: for gravity 1.0, velocity 0, base thickness 0.4, CO2 400, O2 21, ambient
  temperature 22, light intensity 0 and white light, \<^verbatim>\<open>calculatePhysics\<close> returns thickness
  0.4, CO2 flux 100, O2 flux 90, temperature 23.2, efficiency 0 and stress level 30; the
  resistance is 0.8 and the heat trapping 1.2. Of the four thresholds of the stress block
  exactly one is crossed: the efficiency is below 30, which adds 20 to the base of 10.
\<close>

theorem scenario_A_stress_30:
  "calculatePhysics (Num 1.0) (Num 0) (Num 0.4) (Num 400) (Num 21) (Num 22) (Num 0) ''#ffffff''
     = \<lparr>r_boundaryLayerThickness = Num 0.4, r_co2Flux = Num 100, r_o2Flux = Num 90,
        r_stressLevel = Num 30, r_temperature = Num 23.2, r_photosyntheticEfficiency = Num 0\<rparr>
   \<and> calculatePhysics (Num 1.0) (Num 0) (Num 0.4) (Num 400) (Num 21) (Num 22) (Num 0) ''White''
     = calculatePhysics (Num 1.0) (Num 0) (Num 0.4) (Num 400) (Num 21) (Num 22) (Num 0) ''#ffffff''
   \<and> resistance (clampedThickness (Num 0.4) (Num 0)) = Num 0.8
   \<and> heatTrapping (clampedThickness (Num 0.4) (Num 0)) = Num 1.2
   \<and> \<not> js_gt (Num 0.4) (Num 1.5)
   \<and> \<not> js_lt (Num 100) (Num 15)
   \<and> \<not> js_gt (Num 23.2) (Num 30)
   \<and> js_lt (Num 0) (Num 30)
   \<and> stress (Num 0.4) (Num 100) (Num 23.2) (Num 0) = Num 30"
  by (simp add: calculatePhysics_def step_defs Let_def)

section \<open>Effective thickness (C2)\<close>

text \<open>
  C2: for a velocity \<open>v1 \<ge> 0\<close>, a larger velocity \<open>v2\<close> and a base thickness in
  \<open>[0.2, 4.0]\<close>, the thickness \<^verbatim>\<open>calculatePhysics\<close> returns is the quotient
  \<open>b / (1 + v * 0.5)\<close> clamped to \<open>[0.2, 4.0]\<close>, it does not increase from \<open>v1\<close> to
  \<open>v2\<close>, and it lies in \<open>[0.2, 4.0]\<close>. The other inputs are arbitrary.
\<close>

theorem effective_thickness_antitone:
  assumes "0 \<le> v1" and "v1 \<le> v2" and "0.2 \<le> b" and "b \<le> 4.0"
  shows "r_boundaryLayerThickness (calculatePhysics gravity (Num v1) (Num b) co2Lvl o2Lvl
            ambientTemp lightInt lightCol) = Num (min (max (b / (1 + v1 * 0.5)) 0.2) 4.0)
     \<and> js_le (r_boundaryLayerThickness (calculatePhysics gravity (Num v2) (Num b) co2Lvl o2Lvl
            ambientTemp lightInt lightCol))
          (r_boundaryLayerThickness (calculatePhysics gravity (Num v1) (Num b) co2Lvl o2Lvl
            ambientTemp lightInt lightCol))
     \<and> js_le (Num 0.2) (r_boundaryLayerThickness (calculatePhysics gravity (Num v1) (Num b)
            co2Lvl o2Lvl ambientTemp lightInt lightCol))
     \<and> js_le (r_boundaryLayerThickness (calculatePhysics gravity (Num v1) (Num b)
            co2Lvl o2Lvl ambientTemp lightInt lightCol)) (Num 4.0)"
proof -
  have n1: "v1 \<noteq> - 2" and n2: "v2 \<noteq> - 2" using assms by simp_all
  have b0: "0 \<le> b" using assms by simp
  show ?thesis
    using clamped_antitone [OF assms(1) assms(2) b0]
    by (simp add: boundaryLayerThickness_eq clampedThickness_Num [OF n1]
        clampedThickness_Num [OF n2])
qed

text \<open>At base thickness 2.5: velocity 1 gives 5/3, velocity 3 gives 1.\<close>

theorem effective_thickness_antitone_witness:
  "(0::real) \<le> 1 \<and> (1::real) \<le> 3 \<and> (0.2::real) \<le> 2.5 \<and> (2.5::real) \<le> 4.0
   \<and> r_boundaryLayerThickness (calculatePhysics (Num 0) (Num 1) (Num 2.5) (Num 400) (Num 21)
        (Num 22) (Num 0) ''#ffffff'') = Num (5 / 3)
   \<and> r_boundaryLayerThickness (calculatePhysics (Num 0) (Num 3) (Num 2.5) (Num 400) (Num 21)
        (Num 22) (Num 0) ''#ffffff'') = Num 1
   \<and> js_le (r_boundaryLayerThickness (calculatePhysics (Num 0) (Num 3) (Num 2.5) (Num 400)
          (Num 21) (Num 22) (Num 0) ''#ffffff''))
        (r_boundaryLayerThickness (calculatePhysics (Num 0) (Num 1) (Num 2.5) (Num 400)
          (Num 21) (Num 22) (Num 0) ''#ffffff''))"
proof -
  have h: "(0::real) \<le> 1" "(1::real) \<le> 3" "(0.2::real) \<le> 2.5" "(2.5::real) \<le> 4.0"
    by simp_all
  have v: "r_boundaryLayerThickness (calculatePhysics (Num 0) (Num 3) (Num 2.5) (Num 400) (Num 21)
        (Num 22) (Num 0) ''#ffffff'') = Num 1"
    by (simp add: calculatePhysics_def step_defs Let_def)
  show ?thesis
    using h v effective_thickness_antitone
      [OF h, of "Num 0" "Num 400" "Num 21" "Num 22" "Num 0" "''#ffffff''"]
    by simp
qed

section \<open>Stress and efficiency on the declared domain (C3)\<close>

text \<open>
  C3: when every input lies in its declared domain, the stress level and the
  photosynthetic efficiency \<^verbatim>\<open>calculatePhysics\<close> returns both lie in \<open>[0, 100]\<close>.
\<close>

theorem stress_and_efficiency_in_range:
  assumes "declared_domain gravity velocity userThickness co2Lvl o2Lvl ambientTemp lightInt lightCol"
  shows "js_le (Num 0) (r_stressLevel (calculatePhysics gravity velocity userThickness co2Lvl
            o2Lvl ambientTemp lightInt lightCol))
     \<and> js_le (r_stressLevel (calculatePhysics gravity velocity userThickness co2Lvl
            o2Lvl ambientTemp lightInt lightCol)) (Num 100)
     \<and> js_le (Num 0) (r_photosyntheticEfficiency (calculatePhysics gravity velocity userThickness
            co2Lvl o2Lvl ambientTemp lightInt lightCol))
     \<and> js_le (r_photosyntheticEfficiency (calculatePhysics gravity velocity userThickness
            co2Lvl o2Lvl ambientTemp lightInt lightCol)) (Num 100)"
proof -
  from assms obtain g where g: "gravity = Num g"
    unfolding declared_domain_def by (elim conjE between_Num [of 0 gravity 1])
  from assms obtain v where v: "velocity = Num v" "0 \<le> v"
    unfolding declared_domain_def by (elim conjE between_Num [of 0 velocity 5])
  from assms obtain t where t: "userThickness = Num t"
    unfolding declared_domain_def by (elim conjE between_Num [of "0.2" userThickness "4.0"])
  from assms obtain c where c: "co2Lvl = Num c"
    unfolding declared_domain_def by (elim conjE between_Num [of 200 co2Lvl 1500])
  from assms obtain o2 where o2: "o2Lvl = Num o2"
    unfolding declared_domain_def by (elim conjE between_Num [of 15 o2Lvl 30])
  from assms obtain a where a: "ambientTemp = Num a"
    unfolding declared_domain_def by (elim conjE between_Num [of 15 ambientTemp 35])
  from assms obtain li where li: "lightInt = Num li"
    unfolding declared_domain_def by (elim conjE between_Num [of 0 lightInt 5])
  from v have "v \<noteq> - 2" by simp
  from calculatePhysics_Num [OF this, of g t c o2 a li lightCol]
  show ?thesis
    unfolding g v t c o2 a li by auto
qed

text \<open>
  Microgravity at rest under red light of intensity 3: the stress level is 95 and the
  efficiency 14.4.
\<close>

theorem stress_and_efficiency_in_range_witness:
  "declared_domain (Num 0) (Num 0) (Num 2.5) (Num 400) (Num 21) (Num 22) (Num 3) ''#ff0000''
   \<and> js_le (Num 0) (r_stressLevel (calculatePhysics (Num 0) (Num 0) (Num 2.5) (Num 400)
         (Num 21) (Num 22) (Num 3) ''#ff0000''))
   \<and> js_le (r_stressLevel (calculatePhysics (Num 0) (Num 0) (Num 2.5) (Num 400)
         (Num 21) (Num 22) (Num 3) ''#ff0000'')) (Num 100)
   \<and> js_le (Num 0) (r_photosyntheticEfficiency (calculatePhysics (Num 0) (Num 0) (Num 2.5)
         (Num 400) (Num 21) (Num 22) (Num 3) ''#ff0000''))
   \<and> js_le (r_photosyntheticEfficiency (calculatePhysics (Num 0) (Num 0) (Num 2.5)
         (Num 400) (Num 21) (Num 22) (Num 3) ''#ff0000'')) (Num 100)"
proof -
  have h: "declared_domain (Num 0) (Num 0) (Num 2.5) (Num 400) (Num 21) (Num 22) (Num 3) ''#ff0000''"
    by (simp add: declared_domain_def LIGHT_COLORS_def)
  show ?thesis
    using h stress_and_efficiency_in_range [OF h] by simp
qed

section \<open>Totality (C4)\<close>




section \<open>Presets (C5)\<close>

text \<open>
  C5: for every state \<open>X\<close>, the Earth preset publishes \<open>X\<close> with gravity mode
  \<^verbatim>\<open>EARTH_1G\<close>, gravity factor 1.0 and the six derived fields that \<^verbatim>\<open>calculatePhysics\<close>
  returns for gravity 1.0 and base thickness 0.4, and the microgravity preset does the same
  with \<^verbatim>\<open>MICRO_UG\<close>, 0.0 and 2.5. The thickness of \<open>X\<close> is not read; velocity, CO2, O2,
  ambient temperature, light intensity and light colour are those of \<open>X\<close>, both as
  arguments of \<^verbatim>\<open>calculatePhysics\<close> and as fields of the published state.
\<close>

theorem handlePreset_canonical_inputs:
  "handlePreset EARTH_1G X =
     (let p = calculatePhysics (Num 1.0) (airVelocity X) (Num 0.4) (ambientCO2 X) (ambientO2 X)
                (ambientTemperature X) (lightIntensity X) (lightColor X)
      in X\<lparr>gravityMode := EARTH_1G, gravityFactor := Num 1.0,
            boundaryLayerThickness := r_boundaryLayerThickness p,
            co2Flux := r_co2Flux p, o2Flux := r_o2Flux p, stressLevel := r_stressLevel p,
            temperature := r_temperature p,
            photosyntheticEfficiency := r_photosyntheticEfficiency p\<rparr>)
   \<and> handlePreset MICRO_UG X =
     (let p = calculatePhysics (Num 0.0) (airVelocity X) (Num 2.5) (ambientCO2 X) (ambientO2 X)
                (ambientTemperature X) (lightIntensity X) (lightColor X)
      in X\<lparr>gravityMode := MICRO_UG, gravityFactor := Num 0.0,
            boundaryLayerThickness := r_boundaryLayerThickness p,
            co2Flux := r_co2Flux p, o2Flux := r_o2Flux p, stressLevel := r_stressLevel p,
            temperature := r_temperature p,
            photosyntheticEfficiency := r_photosyntheticEfficiency p\<rparr>)
   \<and> gravityFactor (handlePreset EARTH_1G X) = Num 1.0
   \<and> gravityFactor (handlePreset MICRO_UG X) = Num 0.0
   \<and> airVelocity (handlePreset mode X) = airVelocity X
   \<and> ambientCO2 (handlePreset mode X) = ambientCO2 X
   \<and> ambientO2 (handlePreset mode X) = ambientO2 X
   \<and> ambientTemperature (handlePreset mode X) = ambientTemperature X
   \<and> lightIntensity (handlePreset mode X) = lightIntensity X
   \<and> lightColor (handlePreset mode X) = lightColor X"
  by (simp add: handlePreset_def updateState_def merged_def no_overrides_def pick_def Let_def)

section \<open>Scenario B (C6)\<close>

text \<open>
  C6: with the inputs of Scenario A and velocity 5 the quotient is \<open>0.4 / (1 + 2.5)\<close>,
  between 0.1142857 and 0.1142858; the clamp raises it to the floor 0.2, the resistance is
  0.4, the divisor of the flux step is the floor 0.5 and not the resistance, and the CO2
  flux is \<open>80 / 0.5 = 160\<close>.
\<close>

theorem scenario_B:
  "thickness (Num 0.4) (Num 5) = Num (0.4 / (1 + 2.5))
   \<and> js_lt (Num 0.1142857) (thickness (Num 0.4) (Num 5))
   \<and> js_lt (thickness (Num 0.4) (Num 5)) (Num 0.1142858)
   \<and> clampedThickness (Num 0.4) (Num 5) = Num 0.2
   \<and> resistance (clampedThickness (Num 0.4) (Num 5)) = Num 0.4
   \<and> fluxDivisor (resistance (clampedThickness (Num 0.4) (Num 5))) = Num 0.5
   \<and> calcCo2Flux (Num 400) (resistance (clampedThickness (Num 0.4) (Num 5))) = Num (80 / 0.5)
   \<and> r_boundaryLayerThickness (calculatePhysics (Num 1.0) (Num 5) (Num 0.4) (Num 400) (Num 21)
        (Num 22) (Num 0) ''#ffffff'') = Num 0.2
   \<and> r_co2Flux (calculatePhysics (Num 1.0) (Num 5) (Num 0.4) (Num 400) (Num 21)
        (Num 22) (Num 0) ''#ffffff'') = Num 160"
  by (simp add: calculatePhysics_def step_defs Let_def)

section \<open>The O2 flux (C7)\<close>

text \<open>
  C7: for every input tuple the O2 flux of the result is the CO2 flux of the same result
  times 0.9.
\<close>

theorem o2Flux_from_co2Flux:
  "r_o2Flux (calculatePhysics gravity velocity userThickness co2Lvl o2Lvl ambientTemp lightInt
       lightCol)
     = js_mul (r_co2Flux (calculatePhysics gravity velocity userThickness co2Lvl o2Lvl ambientTemp
          lightInt lightCol)) (Num 0.9)"
  by (simp add: calculatePhysics_def Let_def calcO2Flux_def)

section \<open>Unused inputs (C8)\<close>

text \<open>
  C8: two input tuples that differ in the gravity factor and in the ambient O2 level only
  give the same result: neither input reaches a derived field.
\<close>

theorem gravity_and_o2_unused:
  "calculatePhysics gravity velocity userThickness co2Lvl o2Lvl ambientTemp lightInt lightCol
     = calculatePhysics gravity' velocity userThickness co2Lvl o2Lvl' ambientTemp lightInt lightCol"
  by (simp add: calculatePhysics_def Let_def)

section \<open>The stress floor (C9)\<close>

text \<open>
  C9: for every input tuple, special values included, the stress level of the result is
  at least 10 and at most 100; the stress level 0 of \<^verbatim>\<open>INITIAL_STATE\<close> is therefore not a
  value \<^verbatim>\<open>calculatePhysics\<close> returns.
\<close>

theorem stress_floor:
  "js_le (Num 10) (r_stressLevel (calculatePhysics gravity velocity userThickness co2Lvl o2Lvl
       ambientTemp lightInt lightCol))
   \<and> js_le (r_stressLevel (calculatePhysics gravity velocity userThickness co2Lvl o2Lvl
       ambientTemp lightInt lightCol)) (Num 100)
   \<and> stressLevel INITIAL_STATE = Num 0
   \<and> r_stressLevel (calculatePhysics gravity velocity userThickness co2Lvl o2Lvl
       ambientTemp lightInt lightCol) \<noteq> stressLevel INITIAL_STATE"
proof -
  let ?s = "r_stressLevel (calculatePhysics gravity velocity userThickness co2Lvl o2Lvl
       ambientTemp lightInt lightCol)"
  have "\<exists>ct f lt e. ?s = stress ct f lt e"
    by (simp add: calculatePhysics_def Let_def) blast
  then obtain ct f lt e where s: "?s = stress ct f lt e" by blast
  have r: "js_le (Num 10) ?s" "js_le ?s (Num 100)"
    using stress_range [of ct f lt e] by (simp_all add: s)
  have i: "stressLevel INITIAL_STATE = Num 0"
    by (simp add: INITIAL_STATE_def)
  have "\<not> js_le (Num 10) (Num 0)" by simp
  with r(1) have "?s \<noteq> Num 0" by metis
  with r i show ?thesis by simp
qed

section \<open>Unknown light colours (C10)\<close>

text \<open>
  C10: a light colour that is the \<^verbatim>\<open>value\<close> of no entry of \<^verbatim>\<open>LIGHT_COLORS\<close> is looked up
  as the first entry, White with spectral efficiency 0.9, and \<^verbatim>\<open>calculatePhysics\<close> returns
  what it returns for the \<^verbatim>\<open>value\<close> of White.
\<close>

theorem unknown_color_is_white:
  assumes "lightCol \<notin> set (map lc_value LIGHT_COLORS)"
  shows "calculatePhysics gravity velocity userThickness co2Lvl o2Lvl ambientTemp lightInt lightCol
       = calculatePhysics gravity velocity userThickness co2Lvl o2Lvl ambientTemp lightInt ''#ffffff''
     \<and> lightInfo lightCol = LIGHT_COLORS ! 0
     \<and> lc_name (lightInfo lightCol) = ''White''
     \<and> spectrumEfficiency lightCol = Num 0.9"
proof -
  from assms have "find (\<lambda>c. lc_value c = lightCol) LIGHT_COLORS = None"
    by (auto simp: find_None_iff)
  then have a: "lightInfo lightCol = LIGHT_COLORS ! 0"
    by (simp add: lightInfo_def)
  have b: "lightInfo ''#ffffff'' = LIGHT_COLORS ! 0"
    by (simp add: lightInfo_def LIGHT_COLORS_def)
  have c: "lc_name (LIGHT_COLORS ! 0) = ''White''" "lc_spectrum (LIGHT_COLORS ! 0) = Num 0.9"
    by (simp_all add: LIGHT_COLORS_def)
  show ?thesis
    by (simp add: calculatePhysics_def spectrumEfficiency_def a b c)
qed

text \<open>The name \<^verbatim>\<open>White\<close> is itself such a string: the table is searched by \<^verbatim>\<open>value\<close>.\<close>

theorem unknown_color_is_white_witness:
  "''White'' \<notin> set (map lc_value LIGHT_COLORS)
   \<and> calculatePhysics (Num 1) (Num 0) (Num 0.4) (Num 400) (Num 21) (Num 22) (Num 3) ''White''
       = calculatePhysics (Num 1) (Num 0) (Num 0.4) (Num 400) (Num 21) (Num 22) (Num 3) ''#ffffff''
   \<and> spectrumEfficiency ''White'' = Num 0.9"
proof -
  have h: "''White'' \<notin> set (map lc_value LIGHT_COLORS)"
    by (simp add: LIGHT_COLORS_def)
  show ?thesis
    using h unknown_color_is_white
      [OF h, of "Num 1" "Num 0" "Num 0.4" "Num 400" "Num 21" "Num 22" "Num 3"]
    by simp
qed

end
